theory Spec2Isabelle
  imports Main
begin

section \<open>Values of the host language\<close>

text \<open>
  The agent of \<^verbatim>\<open>src/agent/buda_agent.js\<close> is a JavaScript object whose methods call
  the collaborators \<^verbatim>\<open>net\<close>, \<open>zlib\<close>, \<open>mongoose\<close> and \<open>process\<close>. Structured values
  (parsed records, log messages) are JSON values; numbers are restricted to integers.
\<close>

datatype json =
    JNull
  | JBool bool
  | JNum int
  | JStr string
  | JArr "json list"
  | JObj "(string \<times> json) list"

text \<open>
  Truthiness of a value that is either absent (\<open>undefined\<close>, \<open>null\<close>) or a string:
  the empty string is falsy, like the absent value.
\<close>

fun truthy :: "string option \<Rightarrow> bool" where
  "truthy None = False"
| "truthy (Some s) = (s \<noteq> [])"

text \<open>String concatenation renders an absent value as the text \<open>undefined\<close>.\<close>

fun js_str :: "string option \<Rightarrow> string" where
  "js_str None = ''undefined''"
| "js_str (Some s) = s"

text \<open>
  \<^verbatim>\<open>s.replace(pat, rep)\<close> with a string pattern: only the first occurrence of \<open>pat\<close>
  is replaced, wherever it stands; a string without occurrence is returned as it is.
\<close>

fun replace_first :: "string \<Rightarrow> string \<Rightarrow> string \<Rightarrow> string" where
  "replace_first pat rep [] = (if pat = [] then rep else [])"
| "replace_first pat rep (c # cs) =
     (if take (length pat) (c # cs) = pat then rep @ drop (length pat) (c # cs)
      else c # replace_first pat rep cs)"

text \<open>\<open>_.isObject\<close>: objects and arrays, not strings, numbers, booleans or \<open>null\<close>.\<close>

fun isObject :: "json \<Rightarrow> bool" where
  "isObject (JArr xs) = True"
| "isObject (JObj kvs) = True"
| "isObject v = False"

text \<open>
  \<open>JSON.stringify\<close> without indentation: strings are quoted, with the quote, the
  backslash and every control character escaped; members and elements are separated
  by a comma, with no white space.
\<close>

definition hex_digit :: "nat \<Rightarrow> char" where
  "hex_digit n = ''0123456789abcdef'' ! (n mod 16)"

definition escape_char :: "char \<Rightarrow> string" where
  "escape_char c =
     (if c = CHR 0x22 then [CHR 0x5C, CHR 0x22]
      else if c = CHR 0x5C then [CHR 0x5C, CHR 0x5C]
      else if c = CHR 0x08 then [CHR 0x5C, CHR ''b'']
      else if c = CHR 0x0C then [CHR 0x5C, CHR ''f'']
      else if c = CHR 0x0A then [CHR 0x5C, CHR ''n'']
      else if c = CHR 0x0D then [CHR 0x5C, CHR ''r'']
      else if c = CHR 0x09 then [CHR 0x5C, CHR ''t'']
      else if of_char c < (32::nat)
        then [CHR 0x5C, CHR ''u'', CHR ''0'', CHR ''0'',
              hex_digit (of_char c div 16), hex_digit (of_char c mod 16)]
      else [c])"

definition quote :: "string \<Rightarrow> string" where
  "quote s = [CHR 0x22] @ concat (map escape_char s) @ [CHR 0x22]"

fun dec_nat :: "nat \<Rightarrow> string" where
  "dec_nat n = (if n < 10 then [hex_digit n] else dec_nat (n div 10) @ [hex_digit (n mod 10)])"

definition dec_int :: "int \<Rightarrow> string" where
  "dec_int i = (if i < 0 then CHR ''-'' # dec_nat (nat (- i)) else dec_nat (nat i))"

fun stringify :: "json \<Rightarrow> string"
  and stringify_elems :: "json list \<Rightarrow> string"
  and stringify_members :: "(string \<times> json) list \<Rightarrow> string" where
  "stringify JNull = ''null''"
| "stringify (JBool b) = (if b then ''true'' else ''false'')"
| "stringify (JNum i) = dec_int i"
| "stringify (JStr s) = quote s"
| "stringify (JArr xs) = ''['' @ stringify_elems xs @ '']''"
| "stringify (JObj kvs) = ''{'' @ stringify_members kvs @ ''}''"
| "stringify_elems [] = []"
| "stringify_elems [x] = stringify x"
| "stringify_elems (x # y # ys) = stringify x @ '','' @ stringify_elems (y # ys)"
| "stringify_members [] = []"
| "stringify_members [(k, v)] = quote k @ '':'' @ stringify v"
| "stringify_members ((k, v) # kv # kvs) =
     quote k @ '':'' @ stringify v @ '','' @ stringify_members (kv # kvs)"

section \<open>Configuration, collaborators and the world\<close>

text \<open>
  The configuration object: \<open>conf.hotspot.location\<close>, the optional key \<open>compression\<close>,
  and the object \<open>conf.storage\<close>, read by key (\<open>host\<close>, \<open>db\<close>, \<open>collection\<close>, ...).
\<close>

record conf =
  hotspot_location :: string
  compression :: "string option"
  storage :: "string \<rightharpoonup> string"

text \<open>A \<open>mongoose.Schema\<close> with the two options the constructor sets.\<close>

record schema =
  strict :: bool
  collection :: "string option"

text \<open>Stream objects, named by the identity of the instance.\<close>

datatype node = SocketN nat | GunzipN nat | ParserN nat

datatype error = Error string | TypeError string

text \<open>
  The calls on collaborators, in the order they happen. \<open>ParserData p r\<close> is the parser
  instance \<open>p\<close> emitting the record \<open>r\<close>. \<open>TransformCall\<close> and \<open>ModelSave\<close> stand for an
  invocation of the transform hook on a record and for a document written through the
  storage model.
\<close>

datatype effect =
    ZlibCreateGunzip nat
  | MongooseModel string schema
  | StdinResume
  | ProcessOn string
  | MongooseConnect string
  | MongooseDisconnect
  | NetCreateServer nat
  | ServerListen nat string
  | ServerClose nat
  | ParserData nat json
  | TransformCall json
  | ModelSave json
  | CleanupCall
  | ProcessExit
  | StdoutWrite string

text \<open>
  The world outside the agent: the environment variable \<open>STORAGE_PORT\<close>, the next fresh
  object identity, the pipes between streams (source, destination, the \<open>end\<close> option),
  the trace of effects, whether \<open>server.close()\<close> and \<open>mongoose.disconnect()\<close> raise
  when called, the bytes each stream instance has been fed so far, and the zlib
  decoder: from what a gunzip stream was fed before and the next chunk, the bytes it
  puts out for that chunk, or the error it raises on invalid data.
\<close>

record world =
  env_STORAGE_PORT :: "string option"
  next_obj :: nat
  pipes :: "(node \<times> node \<times> bool) list"
  trace :: "effect list"
  close_raises :: bool
  disconnect_raises :: bool
  fed :: "node \<Rightarrow> string"
  inflate :: "string \<Rightarrow> string \<Rightarrow> error + string"

text \<open>
  A method is a function of the world that returns the new world, with either the
  exception it threw or its value. Statements run in sequence; a throw skips the rest.
\<close>

type_synonym 'a io = "world \<Rightarrow> (error + 'a) \<times> world"

definition return_io :: "'a \<Rightarrow> 'a io" where
  "return_io x = (\<lambda>w. (Inr x, w))"

definition throw_io :: "error \<Rightarrow> 'a io" where
  "throw_io e = (\<lambda>w. (Inl e, w))"

definition bind_io :: "'a io \<Rightarrow> ('a \<Rightarrow> 'b io) \<Rightarrow> 'b io" where
  "bind_io m f = (\<lambda>w. case m w of (Inl e, w') \<Rightarrow> (Inl e, w') | (Inr x, w') \<Rightarrow> f x w')"

definition emit :: "effect \<Rightarrow> unit io" where
  "emit e = (\<lambda>w. (Inr (), w\<lparr>trace := trace w @ [e]\<rparr>))"

definition zlib_createGunzip :: "nat io" where
  "zlib_createGunzip =
     (\<lambda>w. (Inr (next_obj w),
           w\<lparr>next_obj := Suc (next_obj w), trace := trace w @ [ZlibCreateGunzip (next_obj w)]\<rparr>))"

definition net_createServer :: "nat io" where
  "net_createServer =
     (\<lambda>w. (Inr (next_obj w),
           w\<lparr>next_obj := Suc (next_obj w), trace := trace w @ [NetCreateServer (next_obj w)]\<rparr>))"

definition server_listen :: "nat \<Rightarrow> string \<Rightarrow> unit io" where
  "server_listen srv addr = emit (ServerListen srv addr)"

definition server_close :: "nat \<Rightarrow> unit io" where
  "server_close srv =
     bind_io (emit (ServerClose srv))
       (\<lambda>_ w. if close_raises w then throw_io (Error ''Not running'') w else return_io () w)"

definition mongoose_connect :: "string \<Rightarrow> unit io" where
  "mongoose_connect uri = emit (MongooseConnect uri)"

definition mongoose_disconnect :: "unit io" where
  "mongoose_disconnect =
     bind_io (emit MongooseDisconnect)
       (\<lambda>_ w. if disconnect_raises w then throw_io (Error ''disconnect failed'') w
              else return_io () w)"

definition process_exit :: "unit io" where
  "process_exit = emit ProcessExit"

text \<open>\<open>process.stdout.write\<close> takes a string; any other value is a type error.\<close>

definition stdout_write :: "json \<Rightarrow> unit io" where
  "stdout_write v = (case v of JStr s \<Rightarrow> emit (StdoutWrite s)
                      | _ \<Rightarrow> throw_io (TypeError ''Invalid data, chunk must be a string''))"

text \<open>
  \<^verbatim>\<open>src.pipe(dst, {end: e})\<close> registers the pipe and returns \<open>dst\<close>; piping into
  \<open>null\<close> is a type error.
\<close>

definition pipe :: "node \<Rightarrow> node option \<Rightarrow> bool \<Rightarrow> node io" where
  "pipe src dst e =
     (case dst of
        None \<Rightarrow> throw_io (TypeError ''Cannot read property of null'')
      | Some d \<Rightarrow> (\<lambda>w. (Inr d, w\<lparr>pipes := pipes w @ [(src, d, e)]\<rparr>)))"

section \<open>The agent\<close>

text \<open>
  A parser is a stream instance supplied by the concrete agent: its identity and, from
  what it was fed before and the next chunk, the records it emits for that chunk, or
  the error it raises.
\<close>

record parser_obj =
  pid :: nat
  parse :: "string \<Rightarrow> string \<Rightarrow> error + json list"

text \<open>
  The fields of \<open>this\<close>. \<open>cleanup\<close> and \<open>transform\<close> are the method slots a concrete agent
  may override; the base prototype fills them with \<open>BudaAgent_cleanup\<close> and
  \<open>BudaAgent_transform\<close>.
\<close>

record agent =
  parser :: "parser_obj option"
  incoming :: "nat option"
  endpoint :: string
  config :: conf
  decrompressor :: "nat option"
  storageSchema :: schema
  model :: "string \<times> schema"
  cleanup :: "unit io"
  transform :: "json \<Rightarrow> json"

definition BudaAgent_cleanup :: "unit io" where
  "BudaAgent_cleanup = return_io ()"

definition BudaAgent_transform :: "json \<Rightarrow> json" where
  "BudaAgent_transform record = record"

text \<open>
  The constructor (lines 27 to 64): default and normalise \<open>compression\<close>, create the
  gunzip stream for \<open>gzip\<close>, configure the schema from \<open>config.storage.collection\<close>,
  register the model and the signal handlers.
\<close>

definition BudaAgent :: "conf \<Rightarrow> agent io" where
  "BudaAgent cnf =
     (let cfg = (if compression cnf = None then cnf\<lparr>compression := Some ''none''\<rparr> else cnf)
      in bind_io
           (if compression cfg = Some ''gzip''
            then bind_io zlib_createGunzip (\<lambda>g. return_io (cfg, Some g))
            else return_io (cfg\<lparr>compression := Some ''none''\<rparr>, None))
           (\<lambda>(cfg', dec).
              let s0 = \<lparr>strict = True, collection = None\<rparr>;
                  s1 = s0\<lparr>strict := False\<rparr>;
                  s2 = s1\<lparr>collection := storage cfg' ''collection''\<rparr>
              in bind_io (emit (MongooseModel ''Doc'' s2)) (\<lambda>_.
                 bind_io (emit StdinResume) (\<lambda>_.
                 bind_io (emit (ProcessOn ''SIGINT'')) (\<lambda>_.
                 bind_io (emit (ProcessOn ''SIGTERM'')) (\<lambda>_.
                 return_io \<lparr>parser = None, incoming = None,
                            endpoint = hotspot_location cnf, config = cfg',
                            decrompressor = dec, storageSchema = s2,
                            model = (''Doc'', s2),
                            cleanup = BudaAgent_cleanup,
                            transform = BudaAgent_transform\<rparr>))))))"

text \<open>\<open>connectStorage\<close> (lines 132 to 153).\<close>

definition connectStorage :: "agent \<Rightarrow> unit io" where
  "connectStorage ag =
     (\<lambda>w. let storage0 = None;
              storage1 = (case env_STORAGE_PORT w of
                            Some v \<Rightarrow> if v \<noteq> [] then Some (replace_first ''tcp://'' [] v)
                                      else storage0
                          | None \<Rightarrow> storage0);
              storage2 = (if truthy (storage (config ag) ''host'')
                          then storage (config ag) ''host'' else storage1)
          in case storage2 of
               None \<Rightarrow> throw_io (Error ''No storage available'') w
             | Some s \<Rightarrow>
                 if s = [] then throw_io (Error ''No storage available'') w
                 else mongoose_connect
                        (''mongodb://'' @ (s @ (''/'' @ js_str (storage (config ag) ''db'')))) w)"

text \<open>
  The connection handler given to \<open>net.createServer\<close> (lines 83 to 91), for the socket
  \<open>sock\<close> of an accepted connection.
\<close>

definition on_connection :: "agent \<Rightarrow> nat \<Rightarrow> unit io" where
  "on_connection ag sock =
     (if compression (config ag) \<noteq> Some ''none''
      then bind_io (pipe (SocketN sock) (map_option GunzipN (decrompressor ag)) False) (\<lambda>d.
           bind_io (pipe d (map_option (\<lambda>p. ParserN (pid p)) (parser ag)) False) (\<lambda>_.
           return_io ()))
      else bind_io (pipe (SocketN sock) (map_option (\<lambda>p. ParserN (pid p)) (parser ag)) False)
             (\<lambda>_. return_io ()))"

text \<open>\<open>start\<close> (lines 73 to 97).\<close>

definition start :: "agent \<Rightarrow> agent io" where
  "start ag =
     (if parser ag = None then throw_io (Error ''No parser set for the agent'')
      else bind_io (connectStorage ag) (\<lambda>_.
           bind_io net_createServer (\<lambda>srv.
           bind_io (server_listen srv (endpoint ag)) (\<lambda>_.
           return_io (ag\<lparr>incoming := Some srv\<rparr>)))))"

text \<open>\<open>exit\<close> (lines 100 to 115), the handler of both signals.\<close>

definition exit :: "agent \<Rightarrow> unit io" where
  "exit ag =
     bind_io (case incoming ag of Some srv \<Rightarrow> server_close srv | None \<Rightarrow> return_io ()) (\<lambda>_.
     bind_io mongoose_disconnect (\<lambda>_.
     bind_io (bind_io (emit CleanupCall) (\<lambda>_. cleanup ag)) (\<lambda>_.
     process_exit)))"

text \<open>\<open>log\<close> (lines 159 to 164); the callback of \<open>listen\<close> logs the readiness line.\<close>

definition log :: "json \<Rightarrow> unit io" where
  "log msg = (let msg' = (if isObject msg then JStr (stringify msg) else msg)
              in stdout_write msg')"

definition on_listening :: "agent \<Rightarrow> unit io" where
  "on_listening ag = log (JStr ''Agent ready'')"

section \<open>Data through the pipes\<close>

text \<open>
  A chunk written to a stream goes to every destination the stream is piped to, once
  for each pipe, in the order of registration. A stream keeps what it was fed: the
  instances are shared, so the chunks of all connections add up in them.

  The parser emits the records of the chunk as \<open>data\<close> events; the agent registers no
  listener on them and pipes the parser nowhere, so the flow stops there. The gunzip
  stream inflates the chunk once and passes the output on. The agent registers no
  \<open>error\<close> listener on any stream: an error of the decoder or of the parser is
  thrown uncaught, which ends the process, and nothing further is delivered.
\<close>

fun each_io :: "('a \<Rightarrow> unit io) \<Rightarrow> 'a list \<Rightarrow> unit io" where
  "each_io f [] = return_io ()"
| "each_io f (x # xs) = bind_io (f x) (\<lambda>_. each_io f xs)"

definition parser_write :: "agent \<Rightarrow> nat \<Rightarrow> string \<Rightarrow> unit io" where
  "parser_write ag p chunk =
     (\<lambda>w. case parser ag of
             None \<Rightarrow> (Inr (), w)
           | Some po \<Rightarrow>
               if pid po = p
               then (case parse po (fed w (ParserN p)) chunk of
                       Inl e \<Rightarrow> (Inl e, w)
                     | Inr rs \<Rightarrow>
                         (Inr (), w\<lparr>fed := (fed w)(ParserN p := fed w (ParserN p) @ chunk),
                                    trace := trace w @ map (ParserData p) rs\<rparr>))
               else (Inr (), w))"

definition gunzip_step ::
  "agent \<Rightarrow> nat \<Rightarrow> string \<Rightarrow> node \<times> node \<times> bool \<Rightarrow> unit io" where
  "gunzip_step ag g out pp =
     (case pp of (src, dst, e) \<Rightarrow>
        if src = GunzipN g
        then (case dst of ParserN p \<Rightarrow> parser_write ag p out | _ \<Rightarrow> return_io ())
        else return_io ())"

definition gunzip_write :: "agent \<Rightarrow> nat \<Rightarrow> string \<Rightarrow> unit io" where
  "gunzip_write ag g chunk =
     (\<lambda>w. case inflate w (fed w (GunzipN g)) chunk of
             Inl e \<Rightarrow> (Inl e, w)
           | Inr out \<Rightarrow>
               each_io (gunzip_step ag g out) (pipes w)
                 (w\<lparr>fed := (fed w)(GunzipN g := fed w (GunzipN g) @ chunk)\<rparr>))"

definition socket_step ::
  "agent \<Rightarrow> nat \<Rightarrow> string \<Rightarrow> node \<times> node \<times> bool \<Rightarrow> unit io" where
  "socket_step ag s chunk pp =
     (case pp of (src, dst, e) \<Rightarrow>
        if src = SocketN s
        then (case dst of
                ParserN p \<Rightarrow> parser_write ag p chunk
              | GunzipN g \<Rightarrow> gunzip_write ag g chunk
              | SocketN _ \<Rightarrow> return_io ())
        else return_io ())"

definition socket_data :: "agent \<Rightarrow> nat \<Rightarrow> string \<Rightarrow> unit io" where
  "socket_data ag s chunk = (\<lambda>w. each_io (socket_step ag s chunk) (pipes w) w)"


section \<open>Observations on a world\<close>




fun stdout_of :: "effect list \<Rightarrow> string list" where
  "stdout_of [] = []"
| "stdout_of (StdoutWrite s # es) = s # stdout_of es"
| "stdout_of (e # es) = stdout_of es"

text \<open>The destinations a stream is piped to.\<close>

fun dests :: "(node \<times> node \<times> bool) list \<Rightarrow> node \<Rightarrow> node list" where
  "dests [] n = []"
| "dests ((src, dst, e) # ps) n = (if src = n then dst # dests ps n else dests ps n)"

text \<open>Whether \<open>pat\<close> occurs in a string.\<close>

fun contains :: "string \<Rightarrow> string \<Rightarrow> bool" where
  "contains pat [] = (pat = [])"
| "contains pat (c # cs) = (take (length pat) (c # cs) = pat \<or> contains pat cs)"

section \<open>Example inputs\<close>

definition world0 :: world where
  "world0 = \<lparr>env_STORAGE_PORT = None, next_obj = 0, pipes = [], trace = [],
             close_raises = False, disconnect_raises = False, fed = (\<lambda>n. []),
             inflate = (\<lambda>h c. Inr c)\<rparr>"

text \<open>
  The configuration of the example scenario: a socket path, no compression, the
  database \<open>x\<close>, the key \<open>collectionName\<close>, and the host set explicitly.
\<close>

definition conf0 :: conf where
  "conf0 = \<lparr>hotspot_location = ''/tmp/agent.sock'', compression = Some ''none'',
            storage = [''db'' \<mapsto> ''x'', ''collectionName'' \<mapsto> ''readings'',
                       ''host'' \<mapsto> ''localhost:27017'']\<rparr>"

definition conf_gzip :: conf where
  "conf_gzip = conf0\<lparr>compression := Some ''gzip''\<rparr>"

text \<open>A parser that emits each chunk as one record.\<close>

definition chunk_parser :: parser_obj where
  "chunk_parser = \<lparr>pid = 100, parse = (\<lambda>h chunk. Inr [JStr chunk])\<rparr>"

text \<open>What the constructor returns for \<open>conf0\<close> and for \<open>conf_gzip\<close> in \<open>world0\<close>.\<close>

definition schema0 :: schema where
  "schema0 = \<lparr>strict = False, collection = None\<rparr>"

definition agent0 :: agent where
  "agent0 = \<lparr>parser = None, incoming = None, endpoint = ''/tmp/agent.sock'',
             config = conf0, decrompressor = None, storageSchema = schema0,
             model = (''Doc'', schema0), cleanup = BudaAgent_cleanup,
             transform = BudaAgent_transform\<rparr>"

definition agent_gzip :: agent where
  "agent_gzip = agent0\<lparr>config := conf_gzip, decrompressor := Some 0\<rparr>"

text \<open>An agent whose configuration gives no storage host.\<close>

definition agent_env :: agent where
  "agent_env = agent0\<lparr>config := conf0\<lparr>storage := [''db'' \<mapsto> ''x'']\<rparr>\<rparr>"

definition trace0 :: "effect list" where
  "trace0 = [MongooseModel ''Doc'' schema0, StdinResume,
             ProcessOn ''SIGINT'', ProcessOn ''SIGTERM'']"

text \<open>
  A run: construct the agent for a configuration, set the parser, start, accept the
  connections of the given sockets, then receive one chunk on each of them.
\<close>

definition example_run :: "conf \<Rightarrow> nat list \<Rightarrow> string \<Rightarrow> world" where
  "example_run cnf socks chunk =
     (case BudaAgent cnf world0 of
        (Inl e, w1) \<Rightarrow> w1
      | (Inr a, w1) \<Rightarrow>
          (case start (a\<lparr>parser := Some chunk_parser\<rparr>) w1 of
             (Inl e, w2) \<Rightarrow> w2
           | (Inr a', w2) \<Rightarrow>
               fold (\<lambda>s w. snd (socket_data a' s chunk w)) socks
                 (fold (\<lambda>s w. snd (on_connection a' s w)) socks w2)))"

section \<open>The constructor on the examples\<close>

lemmas io_defs = return_io_def throw_io_def bind_io_def emit_def

lemma BudaAgent_conf0: "BudaAgent conf0 world0 = (Inr agent0, world0\<lparr>trace := trace0\<rparr>)"
  by (simp add: BudaAgent_def io_defs Let_def conf0_def agent0_def schema0_def trace0_def
      world0_def)

lemma BudaAgent_conf_gzip:
  "BudaAgent conf_gzip world0 =
     (Inr agent_gzip, world0\<lparr>next_obj := 1, trace := ZlibCreateGunzip 0 # trace0\<rparr>)"
  by (simp add: BudaAgent_def io_defs Let_def conf_gzip_def conf0_def agent_gzip_def agent0_def
      schema0_def trace0_def world0_def zlib_createGunzip_def)

section \<open>Starting without a parser\<close>

text \<open>
  C7. On an agent with no parser set, \<open>start\<close> throws the no-parser error before
  anything else happens: the world is left as it was, so no server is created, no
  socket listens and no storage connection is made.
\<close>

theorem C7_start_without_parser:
  assumes "parser ag = None"
  shows "start ag w = (Inl (Error ''No parser set for the agent''), w)"
  using assms by (simp add: start_def throw_io_def)

theorem C7_start_without_parser_witness:
  "parser agent0 = None
   \<and> start agent0 (world0\<lparr>trace := trace0\<rparr>)
       = (Inl (Error ''No parser set for the agent''), world0\<lparr>trace := trace0\<rparr>)
   \<and> trace (snd (start agent0 (world0\<lparr>trace := trace0\<rparr>))) = trace0"
  using C7_start_without_parser [of agent0 "world0\<lparr>trace := trace0\<rparr>"]
  by (simp add: agent0_def)

section \<open>The constructor\<close>

lemma BudaAgent_fields:
  assumes "BudaAgent cnf w0 = (Inr ag, w)"
  shows "parser ag = None" "incoming ag = None" "cleanup ag = BudaAgent_cleanup"
    "transform ag = BudaAgent_transform"
    "storageSchema ag = \<lparr>strict = False, collection = storage cnf ''collection''\<rparr>"
    "model ag = (''Doc'', storageSchema ag)"
    "storage (config ag) = storage cnf"
    "endpoint ag = hotspot_location cnf"
    "\<exists>pre. trace w = trace w0 @ pre @ [MongooseModel ''Doc'' (storageSchema ag), StdinResume,
                 ProcessOn ''SIGINT'', ProcessOn ''SIGTERM'']"
  using assms
  by (auto simp: BudaAgent_def io_defs Let_def zlib_createGunzip_def split: if_splits)

lemma BudaAgent_total: "\<exists>ag w. BudaAgent cnf w0 = (Inr ag, w)"
  by (simp add: BudaAgent_def io_defs Let_def zlib_createGunzip_def)

section \<open>Shutdown\<close>

text \<open>
  What \<open>exit\<close> does, step by step: each step is recorded when it is called, and the
  first step that raises ends the handler.
\<close>

lemma exit_steps:
  "exit ag w =
     (case incoming ag of
        Some srv \<Rightarrow>
          if close_raises w
          then (Inl (Error ''Not running''), w\<lparr>trace := trace w @ [ServerClose srv]\<rparr>)
          else if disconnect_raises w
          then (Inl (Error ''disconnect failed''),
                w\<lparr>trace := trace w @ [ServerClose srv, MongooseDisconnect]\<rparr>)
          else (case cleanup ag
                       (w\<lparr>trace := trace w @ [ServerClose srv, MongooseDisconnect, CleanupCall]\<rparr>) of
                  (Inl e, w') \<Rightarrow> (Inl e, w')
                | (Inr u, w') \<Rightarrow> (Inr (), w'\<lparr>trace := trace w' @ [ProcessExit]\<rparr>))
      | None \<Rightarrow>
          if disconnect_raises w
          then (Inl (Error ''disconnect failed''),
                w\<lparr>trace := trace w @ [MongooseDisconnect]\<rparr>)
          else (case cleanup ag (w\<lparr>trace := trace w @ [MongooseDisconnect, CleanupCall]\<rparr>) of
                  (Inl e, w') \<Rightarrow> (Inl e, w')
                | (Inr u, w') \<Rightarrow> (Inr (), w'\<lparr>trace := trace w' @ [ProcessExit]\<rparr>)))"
  by (simp add: exit_def io_defs server_close_def mongoose_disconnect_def process_exit_def
      split: option.splits prod.splits sum.splits)

text \<open>
  C4, as the claim states it, fails: the steps are not best-effort. With a cleanup hook
  that raises, the handler closes the listener, disconnects the storage, calls the hook
  and ends with the hook's exception; the process is not terminated.
\<close>

theorem C4_cleanup_failure_skips_exit:
  "fst (exit (agent0\<lparr>incoming := Some 0, cleanup := throw_io (Error ''cleanup failed'')\<rparr>)
          world0)
     = Inl (Error ''cleanup failed'')
   \<and> trace (snd (exit (agent0\<lparr>incoming := Some 0,
                               cleanup := throw_io (Error ''cleanup failed'')\<rparr>) world0))
     = [ServerClose 0, MongooseDisconnect, CleanupCall]"
  by (simp add: exit_steps agent0_def world0_def throw_io_def)

text \<open>
  C4, amended. With a listener open, the shutdown handler runs, in this order: close
  the listener, disconnect the storage, call the cleanup hook, terminate the process;
  all four happen when no step raises. When a step raises, its exception leaves the
  handler at once and no later step runs.
\<close>

theorem C4_shutdown_order:
  assumes "incoming ag = Some srv"
  shows "(close_raises w \<longrightarrow>
            exit ag w = (Inl (Error ''Not running''), w\<lparr>trace := trace w @ [ServerClose srv]\<rparr>))
       \<and> (\<not> close_raises w \<and> disconnect_raises w \<longrightarrow>
            exit ag w = (Inl (Error ''disconnect failed''),
                         w\<lparr>trace := trace w @ [ServerClose srv, MongooseDisconnect]\<rparr>))
       \<and> (\<not> close_raises w \<and> \<not> disconnect_raises w \<longrightarrow>
            (\<forall>e w'. cleanup ag (w\<lparr>trace := trace w @
                        [ServerClose srv, MongooseDisconnect, CleanupCall]\<rparr>) = (Inl e, w')
                \<longrightarrow> exit ag w = (Inl e, w'))
          \<and> (\<forall>w'. cleanup ag (w\<lparr>trace := trace w @
                        [ServerClose srv, MongooseDisconnect, CleanupCall]\<rparr>) = (Inr (), w')
                \<longrightarrow> exit ag w = (Inr (), w'\<lparr>trace := trace w' @ [ProcessExit]\<rparr>)))"
  using assms by (simp add: exit_steps)

theorem C4_shutdown_order_witness:
  "incoming (agent0\<lparr>incoming := Some 0\<rparr>) = Some 0
   \<and> exit (agent0\<lparr>incoming := Some 0\<rparr>) world0
       = (Inr (), world0\<lparr>trace := [ServerClose 0, MongooseDisconnect, CleanupCall,
                                     ProcessExit]\<rparr>)
   \<and> exit (agent0\<lparr>incoming := Some 0\<rparr>) (world0\<lparr>close_raises := True\<rparr>)
       = (Inl (Error ''Not running''),
          world0\<lparr>close_raises := True, trace := [ServerClose 0]\<rparr>)
   \<and> exit (agent0\<lparr>incoming := Some 0\<rparr>) (world0\<lparr>disconnect_raises := True\<rparr>)
       = (Inl (Error ''disconnect failed''),
          world0\<lparr>disconnect_raises := True, trace := [ServerClose 0, MongooseDisconnect]\<rparr>)"
  using C4_shutdown_order [of "agent0\<lparr>incoming := Some 0\<rparr>" 0 world0]
        C4_shutdown_order [of "agent0\<lparr>incoming := Some 0\<rparr>" 0 "world0\<lparr>close_raises := True\<rparr>"]
        C4_shutdown_order [of "agent0\<lparr>incoming := Some 0\<rparr>" 0
                              "world0\<lparr>disconnect_raises := True\<rparr>"]
  by (simp add: agent0_def world0_def BudaAgent_cleanup_def return_io_def)

text \<open>
  C10. The constructor registers \<open>exit\<close> as the handler of both signals and leaves
  \<open>incoming\<close> at \<open>null\<close>. Run on the agent as constructed, before any \<open>start\<close>, the
  handler does not throw: the listener is not closed, and the storage disconnect, the
  cleanup hook and the process termination run, in this order (\<open>mongoose.disconnect\<close>
  itself not raising).
\<close>

theorem C10_exit_before_start:
  assumes "BudaAgent cnf w0 = (Inr ag, w)" and "\<not> disconnect_raises w"
  shows "incoming ag = None
       \<and> ProcessOn ''SIGINT'' \<in> set (trace w) \<and> ProcessOn ''SIGTERM'' \<in> set (trace w)
       \<and> exit ag w =
           (Inr (), w\<lparr>trace := trace w @ [MongooseDisconnect, CleanupCall, ProcessExit]\<rparr>)"
proof -
  note f = BudaAgent_fields [OF assms(1)]
  from f(9) have "ProcessOn ''SIGINT'' \<in> set (trace w)" "ProcessOn ''SIGTERM'' \<in> set (trace w)"
    by auto
  moreover from f(2) f(3) assms(2)
  have "exit ag w =
          (Inr (), w\<lparr>trace := trace w @ [MongooseDisconnect, CleanupCall, ProcessExit]\<rparr>)"
    by (simp add: exit_steps BudaAgent_cleanup_def return_io_def)
  ultimately show ?thesis using f(2) by simp
qed

theorem C10_exit_before_start_witness:
  "BudaAgent conf0 world0 = (Inr agent0, world0\<lparr>trace := trace0\<rparr>)
   \<and> \<not> disconnect_raises (world0\<lparr>trace := trace0\<rparr>)
   \<and> exit agent0 (world0\<lparr>trace := trace0\<rparr>)
       = (Inr (), world0\<lparr>trace := trace0 @ [MongooseDisconnect, CleanupCall, ProcessExit]\<rparr>)"
proof -
  have h: "\<not> disconnect_raises (world0\<lparr>trace := trace0\<rparr>)"
    by (simp add: world0_def)
  show ?thesis
    using C10_exit_before_start [OF BudaAgent_conf0 h] BudaAgent_conf0 h by simp
qed

section \<open>The storage address\<close>

lemma connectStorage_host:
  assumes "storage (config ag) ''host'' = Some h" and "h \<noteq> []"
  shows "connectStorage ag w =
           (Inr (), w\<lparr>trace := trace w @
              [MongooseConnect (''mongodb://'' @ h @ ''/'' @ js_str (storage (config ag) ''db''))]\<rparr>)"
  using assms by (simp add: connectStorage_def mongoose_connect_def emit_def Let_def)

lemma connectStorage_env:
  assumes "\<not> truthy (storage (config ag) ''host'')"
    and "env_STORAGE_PORT w = Some v" and "v \<noteq> []" and "replace_first ''tcp://'' [] v \<noteq> []"
  shows "connectStorage ag w =
           (Inr (), w\<lparr>trace := trace w @
              [MongooseConnect (''mongodb://'' @ replace_first ''tcp://'' [] v @ ''/''
                                 @ js_str (storage (config ag) ''db''))]\<rparr>)"
  using assms by (simp add: connectStorage_def mongoose_connect_def emit_def Let_def)

lemma connectStorage_none:
  assumes "\<not> truthy (storage (config ag) ''host'')"
    and "\<not> truthy (env_STORAGE_PORT w)"
  shows "connectStorage ag w = (Inl (Error ''No storage available''), w)"
  using assms
  by (cases "env_STORAGE_PORT w") (simp_all add: connectStorage_def throw_io_def Let_def)

lemma connectStorage_uri:
  assumes "connectStorage ag w1 = (Inr u, w2)"
  shows "\<exists>addr. addr \<noteq> [] \<and> w2 = w1\<lparr>trace := trace w1 @
            [MongooseConnect (''mongodb://'' @ addr @ ''/'' @ js_str (storage (config ag) ''db''))]\<rparr>"
  using assms
  by (auto simp: connectStorage_def mongoose_connect_def io_defs Let_def
      split: option.splits if_splits)

lemma replace_first_prefix: "pat \<noteq> [] \<Longrightarrow> replace_first pat rep (pat @ s) = rep @ s"
  by (cases pat) simp_all

lemma replace_first_absent: "\<not> contains pat s \<Longrightarrow> replace_first pat rep s = s"
  by (induction s) auto

text \<open>
  C5. The host of the configuration takes precedence over the environment. When
  \<open>config.storage.host\<close> is set (it passes the test of the code: present and not the
  empty string), \<open>connectStorage\<close> connects to that host and the configured database,
  whatever \<open>STORAGE_PORT\<close> holds. The environment supplies the address only when the
  configuration gives no host; with neither, the call fails.
\<close>

theorem C5_config_host_precedence:
  "(\<forall>h e. storage (config ag) ''host'' = Some h \<and> h \<noteq> [] \<longrightarrow>
       connectStorage ag (w\<lparr>env_STORAGE_PORT := e\<rparr>) =
         (Inr (), w\<lparr>env_STORAGE_PORT := e, trace := trace w @
            [MongooseConnect (''mongodb://'' @ h @ ''/'' @ js_str (storage (config ag) ''db''))]\<rparr>))
   \<and> (\<forall>v. \<not> truthy (storage (config ag) ''host'') \<and> env_STORAGE_PORT w = Some v
           \<and> replace_first ''tcp://'' [] v \<noteq> [] \<longrightarrow>
       connectStorage ag w =
         (Inr (), w\<lparr>trace := trace w @
            [MongooseConnect (''mongodb://'' @ replace_first ''tcp://'' [] v @ ''/''
                               @ js_str (storage (config ag) ''db''))]\<rparr>))
   \<and> (\<not> truthy (storage (config ag) ''host'') \<and> \<not> truthy (env_STORAGE_PORT w) \<longrightarrow>
       connectStorage ag w = (Inl (Error ''No storage available''), w))"
proof (intro conjI allI impI)
  fix h e
  assume "storage (config ag) ''host'' = Some h \<and> h \<noteq> []"
  then show "connectStorage ag (w\<lparr>env_STORAGE_PORT := e\<rparr>) =
         (Inr (), w\<lparr>env_STORAGE_PORT := e, trace := trace w @
            [MongooseConnect (''mongodb://'' @ h @ ''/'' @ js_str (storage (config ag) ''db''))]\<rparr>)"
    using connectStorage_host [of ag h "w\<lparr>env_STORAGE_PORT := e\<rparr>"] by simp
next
  fix v
  assume a: "\<not> truthy (storage (config ag) ''host'') \<and> env_STORAGE_PORT w = Some v
             \<and> replace_first ''tcp://'' [] v \<noteq> []"
  then have "v \<noteq> []" by auto
  with a show "connectStorage ag w =
         (Inr (), w\<lparr>trace := trace w @
            [MongooseConnect (''mongodb://'' @ replace_first ''tcp://'' [] v @ ''/''
                               @ js_str (storage (config ag) ''db''))]\<rparr>)"
    using connectStorage_env [of ag w v] by simp
next
  assume "\<not> truthy (storage (config ag) ''host'') \<and> \<not> truthy (env_STORAGE_PORT w)"
  then show "connectStorage ag w = (Inl (Error ''No storage available''), w)"
    using connectStorage_none [of ag w] by simp
qed

theorem C5_config_host_precedence_witness:
  "storage (config agent0) ''host'' = Some ''localhost:27017''
   \<and> connectStorage agent0 (world0\<lparr>env_STORAGE_PORT := Some ''tcp://172.17.0.2:27017''\<rparr>)
       = (Inr (), world0\<lparr>env_STORAGE_PORT := Some ''tcp://172.17.0.2:27017'',
                          trace := [MongooseConnect ''mongodb://localhost:27017/x'']\<rparr>)
   \<and> connectStorage agent0 world0
       = (Inr (), world0\<lparr>trace := [MongooseConnect ''mongodb://localhost:27017/x'']\<rparr>)"
  using C5_config_host_precedence [of agent0 world0, THEN conjunct1, rule_format,
          of "''localhost:27017''" "Some ''tcp://172.17.0.2:27017''"]
        C5_config_host_precedence [of agent0 world0, THEN conjunct1, rule_format,
          of "''localhost:27017''" None]
  by (simp add: agent0_def conf0_def world0_def)

text \<open>
  C6, as the claim states it, fails: only the scheme \<open>tcp\<close> is stripped. With no host
  in the configuration and \<open>STORAGE_PORT\<close> set to \<open>http://db:27017\<close>, the address
  used keeps the prefix \<open>http://\<close>.
\<close>

theorem C6_other_scheme_kept:
  "trace (snd (connectStorage agent_env (world0\<lparr>env_STORAGE_PORT := Some ''http://db:27017''\<rparr>)))
     = [MongooseConnect ''mongodb://http://db:27017/x'']"
  by (simp add: connectStorage_def mongoose_connect_def emit_def Let_def agent_env_def
      agent0_def conf0_def world0_def)

text \<open>
  C6, amended. When the environment supplies the storage host (no host in the
  configuration): a value of the form \<open>tcp://host:port\<close> is used with the prefix
  \<open>tcp://\<close> stripped, and a value in which \<open>tcp://\<close> does not occur, any other scheme
  included, is used as it is.
\<close>

theorem C6_tcp_prefix_stripped:
  assumes "\<not> truthy (storage (config ag) ''host'')" and "env_STORAGE_PORT w = Some v"
  shows "(\<forall>hp. v = ''tcp://'' @ hp \<and> hp \<noteq> [] \<longrightarrow>
            connectStorage ag w =
              (Inr (), w\<lparr>trace := trace w @
                 [MongooseConnect (''mongodb://'' @ hp @ ''/''
                                    @ js_str (storage (config ag) ''db''))]\<rparr>))
       \<and> (v \<noteq> [] \<and> \<not> contains ''tcp://'' v \<longrightarrow>
            connectStorage ag w =
              (Inr (), w\<lparr>trace := trace w @
                 [MongooseConnect (''mongodb://'' @ v @ ''/''
                                    @ js_str (storage (config ag) ''db''))]\<rparr>))"
proof (intro conjI allI impI)
  fix hp assume "v = ''tcp://'' @ hp \<and> hp \<noteq> []"
  then have "v \<noteq> []" and "replace_first ''tcp://'' [] v = hp" and "hp \<noteq> []"
    using replace_first_prefix [of "''tcp://''" "[]" hp] by auto
  with connectStorage_env [OF assms(1) assms(2)]
  show "connectStorage ag w =
          (Inr (), w\<lparr>trace := trace w @
             [MongooseConnect (''mongodb://'' @ hp @ ''/''
                                @ js_str (storage (config ag) ''db''))]\<rparr>)"
    by simp
next
  assume "v \<noteq> [] \<and> \<not> contains ''tcp://'' v"
  then have "v \<noteq> []" and "replace_first ''tcp://'' [] v = v"
    using replace_first_absent by auto
  with connectStorage_env [OF assms(1) assms(2)]
  show "connectStorage ag w =
          (Inr (), w\<lparr>trace := trace w @
             [MongooseConnect (''mongodb://'' @ v @ ''/''
                                @ js_str (storage (config ag) ''db''))]\<rparr>)"
    by simp
qed

theorem C6_tcp_prefix_stripped_witness:
  "\<not> truthy (storage (config agent_env) ''host'')
   \<and> connectStorage agent_env (world0\<lparr>env_STORAGE_PORT := Some ''tcp://10.0.0.5:27017''\<rparr>)
       = (Inr (), world0\<lparr>env_STORAGE_PORT := Some ''tcp://10.0.0.5:27017'',
                          trace := [MongooseConnect ''mongodb://10.0.0.5:27017/x'']\<rparr>)"
proof -
  have h1: "\<not> truthy (storage (config agent_env) ''host'')"
    by (simp add: agent_env_def agent0_def)
  have h2: "env_STORAGE_PORT (world0\<lparr>env_STORAGE_PORT := Some ''tcp://10.0.0.5:27017''\<rparr>)
              = Some ''tcp://10.0.0.5:27017''"
    by simp
  have h3: "''tcp://10.0.0.5:27017'' = ''tcp://'' @ ''10.0.0.5:27017''
            \<and> ''10.0.0.5:27017'' \<noteq> []"
    by simp
  have h4: "js_str (storage (config agent_env) ''db'') = ''x''"
    by (simp add: agent_env_def agent0_def)
  from C6_tcp_prefix_stripped [OF h1 h2, THEN conjunct1, rule_format, OF h3]
  have "connectStorage agent_env (world0\<lparr>env_STORAGE_PORT := Some ''tcp://10.0.0.5:27017''\<rparr>)
       = (Inr (), world0\<lparr>env_STORAGE_PORT := Some ''tcp://10.0.0.5:27017'',
            trace := [MongooseConnect (''mongodb://'' @ ''10.0.0.5:27017'' @ ''/'' @ ''x'')]\<rparr>)"
    by (simp add: h4 world0_def)
  then show ?thesis using h1 by simp
qed

section \<open>The storage model\<close>

text \<open>
  C8, as the claim states it, fails: the constructor reads the key \<open>collection\<close> of
  \<open>config.storage\<close>, not \<open>collectionName\<close>. For the configuration \<open>conf0\<close>, whose
  \<open>storage.collectionName\<close> is \<open>readings\<close>, the schema of the model names no
  collection.
\<close>

theorem C8_collectionName_not_read:
  "storage conf0 ''collectionName'' = Some ''readings''
   \<and> fst (BudaAgent conf0 world0) = Inr agent0
   \<and> collection (storageSchema agent0) = None
   \<and> trace (snd (BudaAgent conf0 world0))
       = [MongooseModel ''Doc'' \<lparr>strict = False, collection = None\<rparr>, StdinResume,
          ProcessOn ''SIGINT'', ProcessOn ''SIGTERM'']"
  using BudaAgent_conf0
  by (simp add: conf0_def agent0_def schema0_def trace0_def world0_def)

text \<open>
  C8, amended. The model registered by the constructor is scoped to the collection
  named by \<open>config.storage.collection\<close>, with strict mode off (documents of any shape);
  the key \<open>collectionName\<close> has no effect on it; and a successful \<open>connectStorage\<close>
  connects to the database \<open>config.storage.db\<close>.
\<close>

theorem C8_collection_key:
  assumes "BudaAgent cnf w0 = (Inr ag, w)"
  shows "collection (storageSchema ag) = storage cnf ''collection''
       \<and> strict (storageSchema ag) = False
       \<and> model ag = (''Doc'', storageSchema ag)
       \<and> MongooseModel ''Doc'' (storageSchema ag) \<in> set (trace w)
       \<and> (\<forall>x ag' w'.
             BudaAgent (cnf\<lparr>storage := (storage cnf)(''collectionName'' := x)\<rparr>) w0 = (Inr ag', w')
             \<longrightarrow> model ag' = model ag)
       \<and> (\<forall>u w1 w2. connectStorage ag w1 = (Inr u, w2) \<longrightarrow>
             (\<exists>addr. trace w2 = trace w1 @
                [MongooseConnect (''mongodb://'' @ addr @ ''/'' @ js_str (storage cnf ''db''))]))"
proof (intro conjI allI impI)
  note f = BudaAgent_fields [OF assms]
  show "collection (storageSchema ag) = storage cnf ''collection''" by (simp add: f(5))
  show "strict (storageSchema ag) = False" by (simp add: f(5))
  show "model ag = (''Doc'', storageSchema ag)" by (rule f(6))
  from f(9) show "MongooseModel ''Doc'' (storageSchema ag) \<in> set (trace w)" by auto
  show "model ag' = model ag"
    if "BudaAgent (cnf\<lparr>storage := (storage cnf)(''collectionName'' := x)\<rparr>) w0 = (Inr ag', w')"
    for x ag' w'
    using BudaAgent_fields(5,6) [OF that] f(5,6) by simp
  show "\<exists>addr. trace w2 = trace w1 @
          [MongooseConnect (''mongodb://'' @ addr @ ''/'' @ js_str (storage cnf ''db''))]"
    if "connectStorage ag w1 = (Inr u, w2)" for u w1 w2
    using connectStorage_uri [OF that] f(7) by auto
qed

theorem C8_collection_key_witness:
  "BudaAgent (conf0\<lparr>storage := (storage conf0)(''collection'' \<mapsto> ''readings'')\<rparr>) world0
     = (Inr (agent0\<lparr>config := conf0\<lparr>storage := (storage conf0)(''collection'' \<mapsto> ''readings'')\<rparr>,
                    storageSchema := \<lparr>strict = False, collection = Some ''readings''\<rparr>,
                    model := (''Doc'', \<lparr>strict = False, collection = Some ''readings''\<rparr>)\<rparr>),
        world0\<lparr>trace := [MongooseModel ''Doc'' \<lparr>strict = False, collection = Some ''readings''\<rparr>,
                          StdinResume, ProcessOn ''SIGINT'', ProcessOn ''SIGTERM'']\<rparr>)
   \<and> collection (storageSchema (agent0\<lparr>storageSchema :=
         \<lparr>strict = False, collection = Some ''readings''\<rparr>\<rparr>)) = Some ''readings''"
proof -
  have b: "BudaAgent (conf0\<lparr>storage := (storage conf0)(''collection'' \<mapsto> ''readings'')\<rparr>) world0
     = (Inr (agent0\<lparr>config := conf0\<lparr>storage := (storage conf0)(''collection'' \<mapsto> ''readings'')\<rparr>,
                    storageSchema := \<lparr>strict = False, collection = Some ''readings''\<rparr>,
                    model := (''Doc'', \<lparr>strict = False, collection = Some ''readings''\<rparr>)\<rparr>),
        world0\<lparr>trace := [MongooseModel ''Doc'' \<lparr>strict = False, collection = Some ''readings''\<rparr>,
                          StdinResume, ProcessOn ''SIGINT'', ProcessOn ''SIGTERM'']\<rparr>)"
    by (simp add: BudaAgent_def io_defs Let_def conf0_def agent0_def schema0_def world0_def)
  show ?thesis using C8_collection_key [OF b] b by simp
qed

section \<open>The pipeline of a connection\<close>














lemma dests_append: "dests (ps @ qs) n = dests ps n @ dests qs n"
  by (induction ps n rule: dests.induct) simp_all

text \<open>What the connection handler registers, and what accepting connections adds up to.\<close>

lemma on_connection_none:
  assumes "parser ag = Some po" and "compression (config ag) = Some ''none''"
  shows "on_connection ag s w =
           (Inr (), w\<lparr>pipes := pipes w @ [(SocketN s, ParserN (pid po), False)]\<rparr>)"
  using assms by (simp add: on_connection_def pipe_def io_defs)

lemma on_connection_gzip:
  assumes "parser ag = Some po" and "compression (config ag) \<noteq> Some ''none''"
    and "decrompressor ag = Some g"
  shows "on_connection ag s w =
           (Inr (), w\<lparr>pipes := pipes w @ [(SocketN s, GunzipN g, False),
                                          (GunzipN g, ParserN (pid po), False)]\<rparr>)"
  using assms by (simp add: on_connection_def pipe_def io_defs)


















section \<open>The stages of two connections\<close>

lemma BudaAgent_decrompressor:
  assumes "BudaAgent cnf w0 = (Inr ag, w)"
  shows "decrompressor ag = (if compression cnf = Some ''gzip'' then Some (next_obj w0) else None)"
    and "compression (config ag) = (if compression cnf = Some ''gzip'' then Some ''gzip''
                                    else Some ''none'')"
  using assms
  by (auto simp: BudaAgent_def io_defs Let_def zlib_createGunzip_def split: if_splits)

lemma example_run_gzip_pipes:
  "pipes (example_run conf_gzip [3, 4] ''x'') =
     [(SocketN 3, GunzipN 0, False), (GunzipN 0, ParserN 100, False),
      (SocketN 4, GunzipN 0, False), (GunzipN 0, ParserN 100, False)]"
  unfolding example_run_def BudaAgent_conf_gzip
  by (simp add: start_def connectStorage_def mongoose_connect_def net_createServer_def
      server_listen_def Let_def on_connection_def pipe_def io_defs socket_data_def
      socket_step_def gunzip_write_def gunzip_step_def parser_write_def agent_gzip_def
      agent0_def conf_gzip_def conf0_def chunk_parser_def world0_def)

text \<open>
  C3, as the claim states it, fails: the stages are not per connection. In the run of
  \<open>conf_gzip\<close> with the two connections 3 and 4, both sockets are piped into the same
  gunzip instance, and that instance into the same parser instance.
\<close>

theorem C3_shared_stages:
  "dests (pipes (example_run conf_gzip [3, 4] ''x'')) (SocketN 3) = [GunzipN 0]
   \<and> dests (pipes (example_run conf_gzip [3, 4] ''x'')) (SocketN 4) = [GunzipN 0]
   \<and> dests (pipes (example_run conf_gzip [3, 4] ''x'')) (GunzipN 0) = [ParserN 100, ParserN 100]"
  by (simp add: example_run_gzip_pipes)

text \<open>
  C3, amended. Every accepted connection is piped into the one decompression stage that
  the constructor created (when compression is on) and into the one parser set on the
  agent: the connection handler creates no stream, so all connections share both
  stages.
\<close>

theorem C3_connections_share_stages:
  assumes "parser ag = Some po"
  shows "(compression (config ag) = Some ''none'' \<longrightarrow>
            on_connection ag s w =
              (Inr (), w\<lparr>pipes := pipes w @ [(SocketN s, ParserN (pid po), False)]\<rparr>))
       \<and> (\<forall>g. compression (config ag) \<noteq> Some ''none'' \<and> decrompressor ag = Some g \<longrightarrow>
            on_connection ag s w =
              (Inr (), w\<lparr>pipes := pipes w @ [(SocketN s, GunzipN g, False),
                                             (GunzipN g, ParserN (pid po), False)]\<rparr>))
       \<and> (\<forall>cnf w0 a w1. BudaAgent cnf w0 = (Inr a, w1) \<longrightarrow>
            decrompressor a = (if compression cnf = Some ''gzip'' then Some (next_obj w0)
                               else None))"
  using assms on_connection_none [of ag po s w] on_connection_gzip [of ag po _ s w]
    BudaAgent_decrompressor(1)
  by blast

theorem C3_connections_share_stages_witness:
  "parser (agent_gzip\<lparr>parser := Some chunk_parser\<rparr>) = Some chunk_parser
   \<and> on_connection (agent_gzip\<lparr>parser := Some chunk_parser\<rparr>) 3 world0
       = (Inr (), world0\<lparr>pipes := [(SocketN 3, GunzipN 0, False),
                                    (GunzipN 0, ParserN 100, False)]\<rparr>)
   \<and> on_connection (agent_gzip\<lparr>parser := Some chunk_parser\<rparr>) 4 world0
       = (Inr (), world0\<lparr>pipes := [(SocketN 4, GunzipN 0, False),
                                    (GunzipN 0, ParserN 100, False)]\<rparr>)"
proof -
  have h: "parser (agent_gzip\<lparr>parser := Some chunk_parser\<rparr>) = Some chunk_parser"
    by simp
  have g: "compression (config (agent_gzip\<lparr>parser := Some chunk_parser\<rparr>)) \<noteq> Some ''none''
           \<and> decrompressor (agent_gzip\<lparr>parser := Some chunk_parser\<rparr>) = Some 0"
    by (simp add: agent_gzip_def conf_gzip_def)
  have p: "pid chunk_parser = 100" "pipes world0 = []"
    by (simp_all add: chunk_parser_def world0_def)
  from C3_connections_share_stages [OF h, of 3 world0, THEN conjunct2, THEN conjunct1,
         rule_format, OF g]
       C3_connections_share_stages [OF h, of 4 world0, THEN conjunct2, THEN conjunct1,
         rule_format, OF g]
  show ?thesis by (simp add: p)
qed

section \<open>The logger\<close>

lemma hex_digit_nl: "hex_digit n \<noteq> CHR 0x0A"
proof -
  have "n mod 16 < length ''0123456789abcdef''" by simp
  then have "hex_digit n \<in> set ''0123456789abcdef''"
    unfolding hex_digit_def by (rule nth_mem)
  then show ?thesis by auto
qed

lemma escape_char_nl: "CHR 0x0A \<notin> set (escape_char c)"
  using hex_digit_nl[of "of_char c div 16", THEN not_sym]
        hex_digit_nl[of "of_char c mod 16", THEN not_sym]
  by (simp add: escape_char_def)

lemma quote_nl: "CHR 0x0A \<notin> set (quote s)"
  using escape_char_nl by (auto simp: quote_def)

lemma dec_nat_nl: "CHR 0x0A \<notin> set (dec_nat n)"
proof (induction n rule: dec_nat.induct)
  case (1 n)
  show ?case
    using 1 hex_digit_nl[of n, THEN not_sym] hex_digit_nl[of "n mod 10", THEN not_sym]
    by (subst dec_nat.simps) (simp del: dec_nat.simps)
qed

lemma dec_int_nl: "CHR 0x0A \<notin> set (dec_int i)"
  using dec_nat_nl by (auto simp: dec_int_def simp del: dec_nat.simps)

lemma stringify_nl:
  "CHR 0x0A \<notin> set (stringify v)"
  "CHR 0x0A \<notin> set (stringify_elems vs)"
  "CHR 0x0A \<notin> set (stringify_members kvs)"
  by (induction v and vs and kvs rule: stringify_stringify_elems_stringify_members.induct)
     (auto simp: quote_nl dec_int_nl)

lemma log_object:
  "isObject msg \<Longrightarrow> log msg w = (Inr (), w\<lparr>trace := trace w @ [StdoutWrite (stringify msg)]\<rparr>)"
  by (simp add: log_def stdout_write_def emit_def)

lemma stdout_of_append: "stdout_of (es @ fs) = stdout_of es @ stdout_of fs"
  by (induction es rule: stdout_of.induct) simp_all

text \<open>
  C9, as the claim states it, fails: no newline is written. For a structured message
  the one chunk written is the JSON text itself, which ends with the closing brace.
\<close>

theorem C9_no_newline_written:
  "stdout_of (trace (snd (log (JObj [(''status'', JStr ''ready'')]) world0)))
     = [[CHR ''{'', CHR 0x22] @ ''status'' @ [CHR 0x22, CHR '':'', CHR 0x22] @ ''ready''
          @ [CHR 0x22, CHR ''}'']]"
  by (simp add: log_def stdout_write_def emit_def world0_def quote_def escape_char_def)

text \<open>
  C9, amended. For a structured message (object or array), \<open>log\<close> writes its JSON
  serialisation, which is a single line, to the standard output in one write, with
  nothing appended: no newline delimits the records. A call with a structured message
  or with a text does not throw and makes exactly one write.
\<close>

theorem C9_log_one_write:
  "(isObject msg \<longrightarrow>
      log msg w = (Inr (), w\<lparr>trace := trace w @ [StdoutWrite (stringify msg)]\<rparr>)
      \<and> CHR 0x0A \<notin> set (stringify msg))
   \<and> (isObject msg \<or> (\<exists>s. msg = JStr s) \<longrightarrow>
        fst (log msg w) = Inr ()
        \<and> length (stdout_of (trace (snd (log msg w)))) = Suc (length (stdout_of (trace w))))"
  by (cases msg)
     (auto simp: log_object stringify_nl stdout_of_append log_def stdout_write_def emit_def
       simp del: stringify.simps)

theorem C9_log_one_write_witness:
  "isObject (JArr [JNum 1, JNull])
   \<and> log (JArr [JNum 1, JNull]) world0 = (Inr (), world0\<lparr>trace := [StdoutWrite ''[1,null]'']\<rparr>)
   \<and> length (stdout_of (trace (snd (log (JStr ''Agent ready'') world0)))) = 1"
  using C9_log_one_write [of "JArr [JNum 1, JNull]" world0]
        C9_log_one_write [of "JStr ''Agent ready''" world0]
  by (simp add: world0_def dec_int_def hex_digit_def)

end
